theory Spec2Isabelle
  imports Main
begin

section \<open>Python values, objects, errors and classes\<close>

text \<open>
  The datasets of \<^verbatim>\<open>flash/core/data/io/input_base.py\<close> are Python objects whose hooks are
  looked up by name at run time. The embedding keeps that shape: a small universe of Python
  values, mutable objects (lists and iterators) held by reference in a heap, exceptions as
  values of \<open>pyerror\<close>, classes as method-resolution orders of attribute dictionaries, and
  functions named by the identity of their code object, whose bodies live in a separate
  environment (\<open>program\<close>).
\<close>

type_synonym ref = nat

datatype pyval =
    PyNone
  | PyBool bool
  | PyInt int
  | PyFloat string
  | PyStr string
  | PyDict "(string \<times> pyval) list"
  | PyObj string
  | PyRef ref

text \<open>
  \<open>PyFloat\<close> carries a float by its printed form (no arithmetic is done on floats in the
  modelled code); \<open>PyDict\<close> is a dictionary with string keys, by value; \<open>PyObj\<close> is an opaque
  immutable object of a library (a tensor, a clip sampler); \<open>PyRef\<close> refers to a mutable
  object of the heap.
\<close>

text \<open>
  The mutable objects: a list; a list iterator, which walks the list it refers to (so it
  sees what is appended while it runs) and forgets the list once exhausted; and an object
  that is its own iterator, with the elements it has still to produce. For such an object
  \<^verbatim>\<open>iter\<close> returns the object itself: a generator keeps its position then (it is one-shot),
  while a library dataset that rewinds in \<^verbatim>\<open>__iter__\<close> gets the elements of its second field
  back.
\<close>

datatype pyobj =
    ListObj "pyval list"
  | ListIterObj "ref option" nat
  | IteratorObj "pyval list" "pyval list option"

type_synonym heap = "pyobj list"

definition heap_get :: "heap \<Rightarrow> ref \<Rightarrow> pyobj option" where
  "heap_get h r = (if r < length h then Some (h ! r) else None)"

text \<open>A new object takes the next free reference.\<close>

definition heap_new :: "pyobj \<Rightarrow> heap \<Rightarrow> ref \<times> heap" where
  "heap_new obj h = (length h, h @ [obj])"

datatype pyerror =
    IndexError
  | TypeError
  | KeyError string
  | AttributeError string
  | StopIteration
  | RuntimeError string
  | ValueError string
  | MisconfigurationException string
  | OtherError string

text \<open>
  Modelled from the spec: \<^verbatim>\<open>flash.core.utilities.stages.RunningStage\<close> is not among the
  sources; the specification lists the stages training, validating, testing, predicting,
  sanity-checking and tuning.
\<close>

datatype RunningStage =
  TRAINING | VALIDATING | TESTING | PREDICTING | SANITY_CHECKING | TUNING

subsection \<open>Sequences and iterators\<close>

text \<open>\<^verbatim>\<open>len(x)\<close>: defined on the sized values, a \<^verbatim>\<open>TypeError\<close> otherwise.\<close>

definition py_len :: "pyval \<Rightarrow> heap \<Rightarrow> pyerror + nat" where
  "py_len v h =
     (case v of
        PyStr s \<Rightarrow> Inr (length s)
      | PyDict kvs \<Rightarrow> Inr (length kvs)
      | PyRef r \<Rightarrow>
          (case heap_get h r of Some (ListObj xs) \<Rightarrow> Inr (length xs) | _ \<Rightarrow> Inl TypeError)
      | _ \<Rightarrow> Inl TypeError)"

text \<open>
  \<^verbatim>\<open>xs[i]\<close> on a list of length \<open>n\<close>: an index in \<open>[-n, 0)\<close> counts from the end, an index
  outside \<open>[-n, n)\<close> raises \<^verbatim>\<open>IndexError\<close>.
\<close>

definition list_getitem :: "'a list \<Rightarrow> int \<Rightarrow> pyerror + 'a" where
  "list_getitem xs i =
     (if 0 \<le> i \<and> i < int (length xs) then Inr (xs ! nat i)
      else if i < 0 \<and> - int (length xs) \<le> i then Inr (xs ! nat (int (length xs) + i))
      else Inl IndexError)"

text \<open>\<^verbatim>\<open>x[i]\<close> for an integer \<open>i\<close>.\<close>

definition py_getitem :: "pyval \<Rightarrow> int \<Rightarrow> heap \<Rightarrow> pyerror + pyval" where
  "py_getitem v i h =
     (case v of
        PyStr s \<Rightarrow> (case list_getitem s i of Inl e \<Rightarrow> Inl e | Inr c \<Rightarrow> Inr (PyStr [c]))
      | PyDict kvs \<Rightarrow> Inl (KeyError [])
      | PyRef r \<Rightarrow>
          (case heap_get h r of Some (ListObj xs) \<Rightarrow> list_getitem xs i | _ \<Rightarrow> Inl TypeError)
      | _ \<Rightarrow> Inl TypeError)"

text \<open>
  \<^verbatim>\<open>iter(x)\<close>. A list gets a new list iterator at index 0; a string or a dictionary gets a
  new iterator over its characters or keys; an iterator is returned as it is, rewound if it
  is of the rewinding kind.
\<close>

definition py_iter :: "pyval \<Rightarrow> heap \<Rightarrow> (pyerror + pyval) \<times> heap" where
  "py_iter v h =
     (case v of
        PyStr s \<Rightarrow>
          (case heap_new (IteratorObj (map (\<lambda>c. PyStr [c]) s) None) h of
             (r, h') \<Rightarrow> (Inr (PyRef r), h'))
      | PyDict kvs \<Rightarrow>
          (case heap_new (IteratorObj (map (\<lambda>kv. PyStr (fst kv)) kvs) None) h of
             (r, h') \<Rightarrow> (Inr (PyRef r), h'))
      | PyRef r \<Rightarrow>
          (case heap_get h r of
             Some (ListObj xs) \<Rightarrow>
               (case heap_new (ListIterObj (Some r) 0) h of (it, h') \<Rightarrow> (Inr (PyRef it), h'))
           | Some (ListIterObj l i) \<Rightarrow> (Inr (PyRef r), h)
           | Some (IteratorObj pending rewind) \<Rightarrow>
               (Inr (PyRef r),
                h[r := IteratorObj (case rewind of None \<Rightarrow> pending | Some ys \<Rightarrow> ys) rewind])
           | None \<Rightarrow> (Inl TypeError, h))
      | _ \<Rightarrow> (Inl TypeError, h))"

text \<open>
  \<^verbatim>\<open>next(it)\<close>. A list iterator reads the list as it is now; past its end it raises
  \<^verbatim>\<open>StopIteration\<close> and stays exhausted.
\<close>

definition py_next :: "pyval \<Rightarrow> heap \<Rightarrow> (pyerror + pyval) \<times> heap" where
  "py_next v h =
     (case v of
        PyRef r \<Rightarrow>
          (case heap_get h r of
             Some (ListIterObj (Some l) i) \<Rightarrow>
               (case heap_get h l of
                  Some (ListObj xs) \<Rightarrow>
                    if i < length xs then (Inr (xs ! i), h[r := ListIterObj (Some l) (Suc i)])
                    else (Inl StopIteration, h[r := ListIterObj None i])
                | _ \<Rightarrow> (Inl TypeError, h))
           | Some (ListIterObj None i) \<Rightarrow> (Inl StopIteration, h)
           | Some (IteratorObj pending rewind) \<Rightarrow>
               (case pending of
                  [] \<Rightarrow> (Inl StopIteration, h)
                | x # rest \<Rightarrow> (Inr x, h[r := IteratorObj rest rewind]))
           | _ \<Rightarrow> (Inl TypeError, h))
      | _ \<Rightarrow> (Inl TypeError, h))"

subsection \<open>Classes\<close>

text \<open>
  A function object is named by its code identity (what \<^verbatim>\<open>f.__code__\<close> compares). A class
  is its method-resolution order: the class's own attribute dictionary first, then those of
  its ancestors, most-derived first. \<open>class_getattr\<close> is attribute lookup on the class.
\<close>

type_synonym code = string
type_synonym classdict = "(string \<times> code) list"
type_synonym pyclass = "(string \<times> classdict) list"

fun class_getattr :: "pyclass \<Rightarrow> string \<Rightarrow> code option" where
  "class_getattr [] name = None"
| "class_getattr ((cname, dct) # mro) name =
     (case map_of dct name of Some f \<Rightarrow> Some f | None \<Rightarrow> class_getattr mro name)"

text \<open>
  \<^verbatim>\<open>type.__new__(mcs, name, bases, dct)\<close>: the new class puts its own dictionary in front of
  the linearisation of its bases (which the interpreter computes; it is the argument here).
\<close>

definition type_new :: "string \<Rightarrow> pyclass \<Rightarrow> classdict \<Rightarrow> pyclass" where
  "type_new name bases dct = (name, dct) # bases"

subsection \<open>Instances\<close>

text \<open>
  An instance of \<^verbatim>\<open>InputBase\<close>: its class, \<^verbatim>\<open>self._running_stage\<close>, \<^verbatim>\<open>self.data\<close>,
  \<^verbatim>\<open>self.data_iter\<close> (absent until \<^verbatim>\<open>__iter__\<close> sets it) and the other attributes that hooks
  store on \<^verbatim>\<open>self\<close>; with it travels the heap of the objects it refers to. The property
  \<^verbatim>\<open>self.running_stage\<close> comes from \<^verbatim>\<open>Properties\<close>, which is not among the sources; it reads
  \<^verbatim>\<open>self._running_stage\<close> back, so one field stands for both.
\<close>

record dataset =
  cls :: pyclass
  running_stage :: RunningStage
  data :: pyval
  data_iter :: "pyval option"
  attrs :: "(string \<times> pyval) list"
  objects :: heap

text \<open>
  A method receives positional arguments, keyword arguments and \<^verbatim>\<open>self\<close>; it returns a value
  or raises, and leaves \<^verbatim>\<open>self\<close> and the heap in a new state either way. Nothing restricts
  what it does to them. A \<open>program\<close> gives the body of every code identity.
\<close>

type_synonym pymethod =
  "pyval list \<Rightarrow> (string \<times> pyval) list \<Rightarrow> dataset \<Rightarrow> (pyerror + pyval) \<times> dataset"
type_synonym program = "code \<Rightarrow> pymethod"

text \<open>
  \<^verbatim>\<open>getattr(self, name)\<close> for a method name: lookup along the class's resolution order.
  The attributes that hooks store on the object are data, kept under names of their own
  in \<open>attrs\<close>; they do not shadow methods.
\<close>

definition getattr :: "dataset \<Rightarrow> string \<Rightarrow> code option" where
  "getattr self name = class_getattr (cls self) name"

section \<open>InputBase\<close>

text \<open>
  Modelled from the spec: \<^verbatim>\<open>DataPipeline._resolve_function_hierarchy\<close> is not among the
  sources. The specification: it looks for a member named \<open>stagePrefix(stage)_hook\<close> on the
  concrete dataset type and its ancestors, most-derived first, and falls back to the hook's
  base name if there is none; the prefixes are train, val, test, predict, sanity_check, tune.
\<close>

fun stagePrefix :: "RunningStage \<Rightarrow> string" where
  "stagePrefix TRAINING = ''train''"
| "stagePrefix VALIDATING = ''val''"
| "stagePrefix TESTING = ''test''"
| "stagePrefix PREDICTING = ''predict''"
| "stagePrefix SANITY_CHECKING = ''sanity_check''"
| "stagePrefix TUNING = ''tune''"

definition stage_hook_name :: "RunningStage \<Rightarrow> string \<Rightarrow> string" where
  "stage_hook_name stage function_name = stagePrefix stage @ ''_'' @ function_name"

definition resolve_function_hierarchy ::
  "string \<Rightarrow> dataset \<Rightarrow> RunningStage \<Rightarrow> pyclass \<Rightarrow> string" where
  "resolve_function_hierarchy function_name process_obj stage object_type =
     (case class_getattr (cls process_obj) (stage_hook_name stage function_name) of
        Some f \<Rightarrow> stage_hook_name stage function_name
      | None \<Rightarrow> function_name)"

text \<open>The class \<^verbatim>\<open>InputBase\<close> and the bodies of its two generic hooks (static methods).\<close>

definition InputBase :: pyclass where
  "InputBase =
     [(''InputBase'',
        [(''__init__'', ''InputBase.__init__''),
         (''_call_load_data'', ''InputBase._call_load_data''),
         (''_call_load_sample'', ''InputBase._call_load_sample''),
         (''load_data'', ''InputBase.load_data''),
         (''load_sample'', ''InputBase.load_sample'')]),
      (''object'', [(''__init__'', ''object.__init__'')])]"

definition load_data :: pymethod where
  "load_data args kwargs self =
     (case args of [] \<Rightarrow> (Inl IndexError, self) | a # _ \<Rightarrow> (Inr a, self))"

definition load_sample :: pymethod where
  "load_sample args kwargs self =
     (case args of [sample] \<Rightarrow> (Inr sample, self) | _ \<Rightarrow> (Inl TypeError, self))"

text \<open>\<^verbatim>\<open>_call_load_data\<close> and \<^verbatim>\<open>_call_load_sample\<close>: resolve the hook's name, fetch it, call it.\<close>

definition call_load_data :: "program \<Rightarrow> pymethod" where
  "call_load_data prog args kwargs self =
     (case getattr self
             (resolve_function_hierarchy ''load_data'' self (running_stage self) InputBase) of
        None \<Rightarrow> (Inl (AttributeError ''load_data''), self)
      | Some f \<Rightarrow> prog f args kwargs self)"

definition call_load_sample :: "program \<Rightarrow> pyval \<Rightarrow> dataset \<Rightarrow> (pyerror + pyval) \<times> dataset" where
  "call_load_sample prog sample self =
     (case getattr self
             (resolve_function_hierarchy ''load_sample'' self (running_stage self) InputBase) of
        None \<Rightarrow> (Inl (AttributeError ''load_sample''), self)
      | Some f \<Rightarrow> prog f [sample] [] self)"

text \<open>
  \<^verbatim>\<open>InputBase.__init__(self, running_stage, *args, **kwargs)\<close>, for a fresh object of class
  \<open>C\<close> in the heap \<open>h\<close> of the caller, where the arguments live. \<^verbatim>\<open>self.data = []\<close> makes a
  new list. Reading \<^verbatim>\<open>args[0]\<close> raises \<^verbatim>\<open>IndexError\<close> when there is no positional
  load-argument; an exception leaves the caller without an instance.
\<close>

definition new_instance :: "pyclass \<Rightarrow> RunningStage \<Rightarrow> heap \<Rightarrow> dataset" where
  "new_instance C stage h =
     (case heap_new (ListObj []) h of
        (r, h') \<Rightarrow>
          \<lparr>cls = C, running_stage = stage, data = PyRef r, data_iter = None, attrs = [],
           objects = h'\<rparr>)"

definition InputBase_init ::
  "program \<Rightarrow> pyclass \<Rightarrow> RunningStage \<Rightarrow> pyval list \<Rightarrow> (string \<times> pyval) list \<Rightarrow> heap
     \<Rightarrow> pyerror + dataset" where
  "InputBase_init prog C stage args kwargs h =
     (let self = new_instance C stage h in
      case args of
        [] \<Rightarrow> Inl IndexError
      | a # _ \<Rightarrow>
          if a \<noteq> PyNone then
            (case call_load_data prog args kwargs self of
               (Inl e, self') \<Rightarrow> Inl e
             | (Inr d, self') \<Rightarrow> Inr (self'\<lparr>data := d\<rparr>))
          else Inr self)"

section \<open>Class definition: the check on \<^verbatim>\<open>__init__\<close>\<close>

text \<open>
  \<^verbatim>\<open>is_overridden(method_name, instance, parent)\<close> is a function of the training library
  (\<^verbatim>\<open>pytorch_lightning.utilities.model_helpers\<close>): it fetches the attribute from its second
  argument (here a class) and answers \<^verbatim>\<open>False\<close> if there is none, fails with
  \<^verbatim>\<open>ValueError\<close> if the parent does not define the method, and otherwise compares the two
  code objects.
\<close>

definition is_overridden :: "string \<Rightarrow> pyclass \<Rightarrow> pyclass \<Rightarrow> pyerror + bool" where
  "is_overridden method_name inst parent =
     (case class_getattr inst method_name of
        None \<Rightarrow> Inr False
      | Some instance_attr \<Rightarrow>
          (case class_getattr parent method_name of
             None \<Rightarrow> Inl (ValueError ''The parent should define the method'')
           | Some parent_attr \<Rightarrow> Inr (instance_attr \<noteq> parent_attr)))"

definition init_override_message :: string where
  "init_override_message =
     ''Classes which extend `Input` or `IterableInput` should not override `__init__`. All instantiation '' @
     ''logic should take place within the `load_data` hook.''"

definition check_init :: "pyclass \<Rightarrow> pyerror + unit" where
  "check_init input_cls =
     (case is_overridden ''__init__'' input_cls InputBase of
        Inl e \<Rightarrow> Inl e
      | Inr overridden \<Rightarrow>
          if overridden then Inl (RuntimeError init_override_message) else Inr ())"

text \<open>
  \<^verbatim>\<open>_InputMeta.__new__\<close> and \<^verbatim>\<open>_IterableInputMeta.__new__\<close>: create the class, check it,
  return it. When the check raises, the class statement raises and no class object exists.
\<close>

definition InputMeta_new :: "string \<Rightarrow> pyclass \<Rightarrow> classdict \<Rightarrow> pyerror + pyclass" where
  "InputMeta_new name bases dct =
     (let input_cls = type_new name bases dct in
      case check_init input_cls of Inl e \<Rightarrow> Inl e | Inr u \<Rightarrow> Inr input_cls)"

definition IterableInputMeta_new :: "string \<Rightarrow> pyclass \<Rightarrow> classdict \<Rightarrow> pyerror + pyclass" where
  "IterableInputMeta_new name bases dct =
     (let input_cls = type_new name bases dct in
      case check_init input_cls of Inl e \<Rightarrow> Inl e | Inr u \<Rightarrow> Inr input_cls)"

section \<open>Input: the random-access dataset\<close>

definition Input :: pyclass where
  "Input =
     type_new ''Input'' InputBase
       [(''__getitem__'', ''Input.__getitem__''), (''__len__'', ''Input.__len__'')]"

text \<open>
  \<^verbatim>\<open>__getitem__\<close>: \<^verbatim>\<open>self.data[index]\<close> is evaluated first and may raise; its value goes to the
  resolved \<^verbatim>\<open>load_sample\<close> hook.
\<close>

definition Input_getitem :: "program \<Rightarrow> int \<Rightarrow> dataset \<Rightarrow> (pyerror + pyval) \<times> dataset" where
  "Input_getitem prog index self =
     (case py_getitem (data self) index (objects self) of
        Inl e \<Rightarrow> (Inl e, self)
      | Inr sample \<Rightarrow> call_load_sample prog sample self)"

definition Input_len :: "dataset \<Rightarrow> (pyerror + nat) \<times> dataset" where
  "Input_len self = (py_len (data self) (objects self), self)"

section \<open>IterableInput: the streaming dataset\<close>

definition IterableInput :: pyclass where
  "IterableInput =
     type_new ''IterableInput'' InputBase
       [(''__iter__'', ''IterableInput.__iter__''), (''__next__'', ''IterableInput.__next__'')]"

text \<open>
  \<^verbatim>\<open>__iter__\<close> stores \<^verbatim>\<open>iter(self.data)\<close> in \<^verbatim>\<open>self.data_iter\<close> and returns \<^verbatim>\<open>self\<close>: the
  result here is the updated object.
\<close>

definition IterableInput_iter :: "dataset \<Rightarrow> pyerror + dataset" where
  "IterableInput_iter self =
     (case py_iter (data self) (objects self) of
        (Inl e, h) \<Rightarrow> Inl e
      | (Inr it, h) \<Rightarrow> Inr (self\<lparr>data_iter := Some it, objects := h\<rparr>))"

text \<open>
  \<^verbatim>\<open>__next__\<close>: \<^verbatim>\<open>next(self.data_iter)\<close> advances the iterator or raises \<^verbatim>\<open>StopIteration\<close>
  (\<^verbatim>\<open>AttributeError\<close> if \<^verbatim>\<open>__iter__\<close> never ran); the element goes to the resolved hook.
\<close>

definition IterableInput_next :: "program \<Rightarrow> dataset \<Rightarrow> (pyerror + pyval) \<times> dataset" where
  "IterableInput_next prog self =
     (case data_iter self of
        None \<Rightarrow> (Inl (AttributeError ''data_iter''), self)
      | Some it \<Rightarrow>
          (case py_next it (objects self) of
             (Inl e, h) \<Rightarrow> (Inl e, self\<lparr>objects := h\<rparr>)
           | (Inr sample, h) \<Rightarrow> call_load_sample prog sample (self\<lparr>objects := h\<rparr>)))"

subsection \<open>Datasets by reference\<close>




subsection \<open>Consumers\<close>



subsection \<open>What a pass is expected to produce\<close>

text \<open>
  The hook that a dataset resolves for a hook name, by its code identity.
\<close>

definition resolved_hook :: "dataset \<Rightarrow> string \<Rightarrow> code option" where
  "resolved_hook self function_name =
     getattr self (resolve_function_hierarchy function_name self (running_stage self) InputBase)"





subsection \<open>The contract of hooks\<close>


text \<open>The program that holds the two generic hooks and nothing else.\<close>

definition InputBase_program :: program where
  "InputBase_program f =
     (if f = ''InputBase.load_data'' then load_data
      else if f = ''InputBase.load_sample'' then load_sample
      else (\<lambda>args kwargs self. (Inl (OtherError f), self)))"

subsection \<open>A call-count probe\<close>

text \<open>
  A subclass of \<^verbatim>\<open>Input\<close> whose \<^verbatim>\<open>load_data\<close> counts its own invocations in an attribute
  of the object and otherwise does what the generic hook does.
\<close>

definition load_data_calls :: "dataset \<Rightarrow> int" where
  "load_data_calls self =
     (case map_of (attrs self) ''load_data_calls'' of Some (PyInt n) \<Rightarrow> n | _ \<Rightarrow> 0)"

definition probe_load_data :: pymethod where
  "probe_load_data args kwargs self =
     (case args of
        [] \<Rightarrow> (Inl IndexError, self)
      | a # _ \<Rightarrow>
          (Inr a,
           self\<lparr>attrs := (''load_data_calls'', PyInt (load_data_calls self + 1)) # attrs self\<rparr>))"

definition ProbeInput :: pyclass where
  "ProbeInput = type_new ''ProbeInput'' Input [(''load_data'', ''ProbeInput.load_data'')]"

definition Probe_program :: program where
  "Probe_program f =
     (if f = ''ProbeInput.load_data'' then probe_load_data else InputBase_program f)"

subsection \<open>Hooks that write to \<^verbatim>\<open>self\<close>\<close>


definition GrowingInput :: pyclass where
  "GrowingInput =
     type_new ''GrowingInput'' IterableInput [(''load_sample'', ''GrowingInput.load_sample'')]"


definition restaging_load_sample :: pymethod where
  "restaging_load_sample args kwargs self =
     (case args of
        [sample] \<Rightarrow> (Inr sample, self\<lparr>running_stage := TRAINING\<rparr>)
      | _ \<Rightarrow> (Inl TypeError, self))"

definition RestagingInput :: pyclass where
  "RestagingInput =
     type_new ''RestagingInput'' Input [(''load_sample'', ''RestagingInput.load_sample'')]"

definition Restaging_program :: program where
  "Restaging_program f =
     (if f = ''RestagingInput.load_sample'' then restaging_load_sample else InputBase_program f)"

section \<open>Video classification: the predict input\<close>

text \<open>
  \<^verbatim>\<open>VideoClassificationPathsPredictInput\<close> defines the stage-specific hooks
  \<^verbatim>\<open>predict_load_data\<close> and \<^verbatim>\<open>predict_load_sample\<close>. What it calls in the video library and
  in modules that are not among the sources is a parameter: decoding a file, the clip
  sampler, the filter for valid files, and how a value prints inside an f-string.
\<close>

record clip =
  clip_video :: pyval
  clip_audio :: pyval

record clip_info =
  clip_start :: pyval
  clip_end :: pyval
  clip_index :: pyval
  aug_index :: pyval
  is_last_clip :: pyval

record encoded_video =
  ev_duration :: pyval
  ev_name :: pyval
  ev_get_clip :: "pyval \<Rightarrow> pyval \<Rightarrow> clip option"

record video_lib =
  EncodedVideo_from_path :: "pyval \<Rightarrow> pyval \<Rightarrow> pyval \<Rightarrow> pyerror + encoded_video"
  make_clip_sampler :: "pyval \<Rightarrow> pyval \<Rightarrow> (string \<times> pyval) list \<Rightarrow> pyerror + pyval"
  clip_sampler_call :: "pyval \<Rightarrow> pyval \<Rightarrow> pyval \<Rightarrow> pyval \<Rightarrow> clip_info"
  clip_sampler_clip_duration :: "pyval \<Rightarrow> pyval"
  list_valid_files :: "pyval \<Rightarrow> heap \<Rightarrow> (pyerror + pyval) \<times> heap"
  py_format :: "pyval \<Rightarrow> string"

text \<open>Reading a data attribute of \<^verbatim>\<open>self\<close>, and storing one.\<close>

definition self_attr :: "dataset \<Rightarrow> string \<Rightarrow> pyerror + pyval" where
  "self_attr self name =
     (case map_of (attrs self) name of None \<Rightarrow> Inl (AttributeError name) | Some v \<Rightarrow> Inr v)"

definition set_self_attr :: "string \<Rightarrow> pyval \<Rightarrow> dataset \<Rightarrow> dataset" where
  "set_self_attr name v self =
     self\<lparr>attrs := (name, v) # filter (\<lambda>kv. fst kv \<noteq> name) (attrs self)\<rparr>"

text \<open>The truth value of an object in a condition.\<close>

definition py_truthy :: "pyval \<Rightarrow> heap \<Rightarrow> bool" where
  "py_truthy v h =
     (case v of
        PyNone \<Rightarrow> False
      | PyBool b \<Rightarrow> b
      | PyInt i \<Rightarrow> i \<noteq> 0
      | PyFloat s \<Rightarrow> s \<noteq> ''0.0'' \<and> s \<noteq> ''-0.0''
      | PyStr s \<Rightarrow> s \<noteq> []
      | PyDict kvs \<Rightarrow> kvs \<noteq> []
      | PyObj n \<Rightarrow> True
      | PyRef r \<Rightarrow> (case heap_get h r of Some (ListObj xs) \<Rightarrow> xs \<noteq> [] | _ \<Rightarrow> True))"

text \<open>
  Binding one parameter of a call: a positional argument if there is one at its position
  (and then no keyword of the same name), else the keyword, else the default.
\<close>

definition bind_param ::
  "pyval list \<Rightarrow> (string \<times> pyval) list \<Rightarrow> nat \<Rightarrow> string \<Rightarrow> pyval option \<Rightarrow> pyerror + pyval" where
  "bind_param args kwargs pos name dflt =
     (if pos < length args then
        (case map_of kwargs name of None \<Rightarrow> Inr (args ! pos) | Some v \<Rightarrow> Inl TypeError)
      else
        (case map_of kwargs name of
           Some v \<Rightarrow> Inr v
         | None \<Rightarrow> (case dflt of None \<Rightarrow> Inl TypeError | Some d \<Rightarrow> Inr d)))"

text \<open>\<^verbatim>\<open>_make_clip_sampler\<close>: no sampler arguments stands for the empty dictionary.\<close>

definition make_clip_sampler' :: "video_lib \<Rightarrow> pyval \<Rightarrow> pyval \<Rightarrow> pyval \<Rightarrow> pyerror + pyval" where
  "make_clip_sampler' lib clip_sampler clip_duration clip_sampler_kwargs =
     (case clip_sampler_kwargs of
        PyNone \<Rightarrow> make_clip_sampler lib clip_sampler clip_duration []
      | PyDict kvs \<Rightarrow> make_clip_sampler lib clip_sampler clip_duration kvs
      | _ \<Rightarrow> Inl TypeError)"

definition predict_load_data :: "video_lib \<Rightarrow> pymethod" where
  "predict_load_data lib args kwargs self =
     (if 6 < length args then (Inl TypeError, self)
      else
        case (bind_param args kwargs 0 ''paths'' None,
              bind_param args kwargs 1 ''clip_sampler'' (Some (PyStr ''random'')),
              bind_param args kwargs 2 ''clip_duration'' (Some (PyInt 2)),
              bind_param args kwargs 3 ''clip_sampler_kwargs'' (Some PyNone),
              bind_param args kwargs 4 ''decode_audio'' (Some (PyBool False)),
              bind_param args kwargs 5 ''decoder'' (Some (PyStr ''pyav''))) of
          (Inr paths, Inr clip_sampler, Inr clip_duration, Inr clip_sampler_kwargs,
           Inr decode_audio, Inr decoder) \<Rightarrow>
            (case list_valid_files lib paths (objects self) of
               (Inl e, h) \<Rightarrow> (Inl e, self\<lparr>objects := h\<rparr>)
             | (Inr paths', h) \<Rightarrow>
                 (case make_clip_sampler' lib clip_sampler clip_duration clip_sampler_kwargs of
                    Inl e \<Rightarrow> (Inl e, self\<lparr>objects := h\<rparr>)
                  | Inr sampler \<Rightarrow>
                      (Inr paths',
                       set_self_attr ''_decoder'' decoder
                         (set_self_attr ''_decode_audio'' decode_audio
                            (set_self_attr ''_clip_sampler'' sampler (self\<lparr>objects := h\<rparr>))))))
        | _ \<Rightarrow> (Inl TypeError, self))"

text \<open>
  Modelled from the spec: \<^verbatim>\<open>DataKeys.METADATA\<close> is not among the sources; the specification
  names the sample's keys input, target and metadata.
\<close>

definition DataKeys_METADATA :: string where
  "DataKeys_METADATA = ''metadata''"

definition too_short_message :: "video_lib \<Rightarrow> encoded_video \<Rightarrow> pyval \<Rightarrow> string" where
  "too_short_message lib video sampler =
     ''The provided video is too short '' @ py_format lib (ev_duration video) @
     '' to be clipped at '' @ py_format lib (clip_sampler_clip_duration lib sampler)"

definition clip_is_null :: "clip option \<Rightarrow> pyval \<Rightarrow> heap \<Rightarrow> bool" where
  "clip_is_null loaded_clip decode_audio h =
     (case loaded_clip of
        None \<Rightarrow> True
      | Some c \<Rightarrow>
          clip_video c = PyNone \<or> (clip_audio c = PyNone \<and> py_truthy decode_audio h))"

definition predict_sample_dict :: "encoded_video \<Rightarrow> clip_info \<Rightarrow> clip \<Rightarrow> pyval \<Rightarrow> pyval" where
  "predict_sample_dict video info c sample =
     PyDict
       ([(''video'', clip_video c),
         (''video_name'', ev_name video),
         (''video_index'', PyInt 0),
         (''clip_index'', clip_index info),
         (''aug_index'', aug_index info)] @
        (if clip_audio c \<noteq> PyNone then [(''audio'', clip_audio c)] else []) @
        [(DataKeys_METADATA, PyDict [(''filepath'', sample)])])"

definition predict_load_sample :: "video_lib \<Rightarrow> pymethod" where
  "predict_load_sample lib args kwargs self =
     (case args of
        [sample] \<Rightarrow>
          (case self_attr self ''_decode_audio'' of
             Inl e \<Rightarrow> (Inl e, self)
           | Inr decode_audio \<Rightarrow>
          (case self_attr self ''_decoder'' of
             Inl e \<Rightarrow> (Inl e, self)
           | Inr decoder \<Rightarrow>
          (case EncodedVideo_from_path lib sample decode_audio decoder of
             Inl e \<Rightarrow> (Inl e, self)
           | Inr video \<Rightarrow>
          (case self_attr self ''_clip_sampler'' of
             Inl e \<Rightarrow> (Inl e, self)
           | Inr sampler \<Rightarrow>
               (let info = clip_sampler_call lib sampler (PyFloat ''0.0'') (ev_duration video) PyNone;
                    loaded_clip = ev_get_clip video (clip_start info) (clip_end info)
                in if clip_is_null loaded_clip decode_audio (objects self) then
                     (Inl (MisconfigurationException (too_short_message lib video sampler)), self)
                   else
                     (case loaded_clip of
                        None \<Rightarrow> (Inl TypeError, self)
                      | Some c \<Rightarrow> (Inr (predict_sample_dict video info c sample), self)))))))
      | _ \<Rightarrow> (Inl TypeError, self))"

definition VideoClassificationPathsPredictInput :: pyclass where
  "VideoClassificationPathsPredictInput =
     type_new ''VideoClassificationPathsPredictInput'' Input
       [(''predict_load_data'', ''VideoClassificationPathsPredictInput.predict_load_data''),
        (''predict_load_sample'', ''VideoClassificationPathsPredictInput.predict_load_sample'')]"

definition video_program :: "video_lib \<Rightarrow> program" where
  "video_program lib f =
     (if f = ''VideoClassificationPathsPredictInput.predict_load_data'' then predict_load_data lib
      else if f = ''VideoClassificationPathsPredictInput.predict_load_sample''
        then predict_load_sample lib
      else InputBase_program f)"

section \<open>Tabular backbones\<close>

text \<open>
  \<^verbatim>\<open>load_pytorch_tabular\<close> calls four things of the tabular library: item access on the
  parameters (a \<^verbatim>\<open>DictConfig\<close>), the configuration class it is given, \<^verbatim>\<open>OmegaConf.merge\<close>
  (of the parameters, the model configuration and a default \<^verbatim>\<open>OptimizerConfig\<close>) and the
  constructor of a model class. They are parameters; each may raise.
\<close>

datatype model_config_class =
    TabNetModelConfig
  | TabTransformerConfig
  | FTTransformerConfig
  | AutoIntConfig
  | NodeConfig
  | CategoryEmbeddingModelConfig

datatype tabular_model_class =
    TabNetModel
  | TabTransformerModel
  | FTTransformerModel
  | AutoIntModel
  | NODEModel
  | CategoryEmbeddingModel

record ('mc, 'conf, 'model) tabular_lib =
  DictConfig_getitem :: "(string \<times> pyval) list \<Rightarrow> string \<Rightarrow> pyerror + pyval"
  model_config_new :: "model_config_class \<Rightarrow> pyval \<Rightarrow> pyval \<Rightarrow> pyerror + 'mc"
  OmegaConf_merge :: "(string \<times> pyval) list \<Rightarrow> 'mc \<Rightarrow> pyerror + 'conf"
  model_new :: "tabular_model_class \<Rightarrow> 'conf \<Rightarrow> pyerror + 'model"

definition load_pytorch_tabular ::
  "('mc, 'conf, 'model) tabular_lib \<Rightarrow> model_config_class \<Rightarrow> pyval \<Rightarrow> (string \<times> pyval) list
     \<Rightarrow> (string \<times> pyval) list \<Rightarrow> pyerror + 'model" where
  "load_pytorch_tabular lib model_config task_type parameters kwargs =
     (case DictConfig_getitem lib parameters ''embedding_dims'' of
        Inl e \<Rightarrow> Inl e
      | Inr dims \<Rightarrow>
          (case model_config_new lib model_config task_type dims of
             Inl e \<Rightarrow> Inl e
           | Inr model_config' \<Rightarrow>
               (case OmegaConf_merge lib parameters model_config' of
                  Inl e \<Rightarrow> Inl e
                | Inr config \<Rightarrow> model_new lib TabNetModel config)))"

text \<open>
  Modelled from the spec: \<^verbatim>\<open>FlashRegistry\<close> is not among the sources; the specification
  describes registries keyed by a string name, each entry returning a model object given
  configuration parameters. Registering appends an entry, \<open>registry_get\<close> finds it by name.
\<close>

type_synonym 'model backbone_fn =
  "pyval \<Rightarrow> (string \<times> pyval) list \<Rightarrow> (string \<times> pyval) list \<Rightarrow> pyerror + 'model"

definition registry_register ::
  "(string \<times> 'f) list \<Rightarrow> 'f \<Rightarrow> string \<Rightarrow> (string \<times> 'f) list" where
  "registry_register registry fn name = registry @ [(name, fn)]"

definition registry_get :: "(string \<times> 'f) list \<Rightarrow> string \<Rightarrow> 'f option" where
  "registry_get registry name = map_of registry name"

text \<open>
  The module's loop: when the tabular library is available, each configuration class is
  bound to \<^verbatim>\<open>load_pytorch_tabular\<close> by \<^verbatim>\<open>functools.partial\<close> and registered under its name.
\<close>

definition backbone_config_classes :: "model_config_class list" where
  "backbone_config_classes =
     [TabNetModelConfig, TabTransformerConfig, FTTransformerConfig, AutoIntConfig,
      NodeConfig, CategoryEmbeddingModelConfig]"

definition backbone_names :: "string list" where
  "backbone_names =
     [''tabnet'', ''tabtransformer'', ''fttransformer'', ''autoint'', ''node'',
      ''category_embedding'']"

definition PYTORCH_TABULAR_BACKBONES ::
  "bool \<Rightarrow> ('mc, 'conf, 'model) tabular_lib \<Rightarrow> (string \<times> 'model backbone_fn) list" where
  "PYTORCH_TABULAR_BACKBONES available lib =
     (if available then
        foldl (\<lambda>registry (model_config, name).
                 registry_register registry (load_pytorch_tabular lib model_config) name)
          [] (zip backbone_config_classes backbone_names)
      else [])"

section \<open>Example objects\<close>

text \<open>
  Concrete libraries and heaps on which the properties below are run: a video library in
  which every file lasts one second, only \<^verbatim>\<open>long.mp4\<close> yields a clip and every listed file
  is valid (the filter returns a new list of them); a tabular library whose objects record
  how they were built; heaps holding a list of one, two or three paths, and one holding a
  generator of two paths.
\<close>

definition demo_video_lib :: video_lib where
  "demo_video_lib =
     \<lparr>EncodedVideo_from_path =
        (\<lambda>path decode_audio decoder.
           Inr \<lparr>ev_duration = PyFloat ''1.0'', ev_name = path,
                ev_get_clip =
                  (\<lambda>start_sec end_sec.
                     if path = PyStr ''long.mp4''
                     then Some \<lparr>clip_video = PyObj ''frames'', clip_audio = PyNone\<rparr>
                     else None)\<rparr>),
      make_clip_sampler = (\<lambda>clip_sampler clip_duration kws. Inr (PyObj ''sampler'')),
      clip_sampler_call =
        (\<lambda>sampler last_clip_time video_duration annotation.
           \<lparr>clip_start = PyFloat ''0.0'', clip_end = PyFloat ''2.0'', clip_index = PyInt 0,
            aug_index = PyInt 0, is_last_clip = PyBool True\<rparr>),
      clip_sampler_clip_duration = (\<lambda>sampler. PyInt 2),
      list_valid_files =
        (\<lambda>paths h.
           case paths of
             PyRef r \<Rightarrow>
               (case heap_get h r of
                  Some (ListObj xs) \<Rightarrow> (Inr (PyRef (length h)), h @ [ListObj xs])
                | _ \<Rightarrow> (Inl TypeError, h))
           | _ \<Rightarrow> (Inl TypeError, h)),
      py_format =
        (\<lambda>v. case v of
               PyFloat s \<Rightarrow> s
             | PyInt i \<Rightarrow> (if i = 2 then ''2'' else ''?'')
             | _ \<Rightarrow> ''?'')\<rparr>"

definition demo_tabular_lib ::
  "(model_config_class \<times> pyval \<times> pyval,
    (string \<times> pyval) list \<times> model_config_class \<times> pyval \<times> pyval,
    tabular_model_class \<times> (string \<times> pyval) list \<times> model_config_class \<times> pyval \<times> pyval)
   tabular_lib" where
  "demo_tabular_lib =
     \<lparr>DictConfig_getitem =
        (\<lambda>parameters key.
           case map_of parameters key of None \<Rightarrow> Inl (KeyError key) | Some v \<Rightarrow> Inr v),
      model_config_new = (\<lambda>c task dims. Inr (c, task, dims)),
      OmegaConf_merge = (\<lambda>parameters mc. Inr (parameters, mc)),
      model_new = (\<lambda>c conf. Inr (c, conf))\<rparr>"

definition two_paths :: heap where
  "two_paths = [ListObj [PyStr ''a.mp4'', PyStr ''b.mp4'']]"




definition three_paths :: heap where
  "three_paths = [ListObj [PyStr ''a.mp4'', PyStr ''b.mp4'', PyStr ''long.mp4'']]"

text \<open>What construction at stage predicting makes of the three paths.\<close>

definition predict_videos :: dataset where
  "predict_videos =
     \<lparr>cls = VideoClassificationPathsPredictInput, running_stage = PREDICTING,
      data = PyRef 2, data_iter = None,
      attrs = [(''_decoder'', PyStr ''pyav''), (''_decode_audio'', PyBool False),
               (''_clip_sampler'', PyObj ''sampler'')],
      objects =
        [ListObj [PyStr ''a.mp4'', PyStr ''b.mp4'', PyStr ''long.mp4''], ListObj [],
         ListObj [PyStr ''a.mp4'', PyStr ''b.mp4'', PyStr ''long.mp4'']]\<rparr>"

section \<open>Properties\<close>

lemmas resolve_defs = call_load_data_def call_load_sample_def getattr_def
  resolve_function_hierarchy_def stage_hook_name_def

lemmas class_defs = Input_def IterableInput_def InputBase_def type_new_def
  VideoClassificationPathsPredictInput_def ProbeInput_def GrowingInput_def RestagingInput_def

lemmas heap_defs = heap_get_def heap_new_def py_len_def py_getitem_def py_iter_def py_next_def
  list_getitem_def

lemmas eval_defs = IterableInput_iter_def IterableInput_next_def Input_getitem_def Input_len_def
  InputBase_init_def resolve_defs new_instance_def class_defs InputBase_program_def
  load_data_def load_sample_def heap_defs

subsection \<open>Hook resolution\<close>

text \<open>
  Claim C1. For every running stage and each of the hook names \<^verbatim>\<open>load_data\<close> and
  \<^verbatim>\<open>load_sample\<close>: when the dataset's class (or an ancestor) defines the stage-specific
  member \<^verbatim>\<open>prefix(stage)_hook\<close>, \<^verbatim>\<open>_call_load_data\<close> and \<^verbatim>\<open>_call_load_sample\<close> run that
  member's body on the arguments; when it defines none, they run the generic hook.
\<close>

theorem stage_override_resolution:
  "(class_getattr (cls self) (stage_hook_name (running_stage self) ''load_data'') = Some f \<longrightarrow>
      call_load_data prog args kwargs self = prog f args kwargs self) \<and>
   (class_getattr (cls self) (stage_hook_name (running_stage self) ''load_data'') = None \<and>
    class_getattr (cls self) ''load_data'' = Some g \<longrightarrow>
      call_load_data prog args kwargs self = prog g args kwargs self) \<and>
   (class_getattr (cls self) (stage_hook_name (running_stage self) ''load_sample'') = Some f' \<longrightarrow>
      call_load_sample prog sample self = prog f' [sample] [] self) \<and>
   (class_getattr (cls self) (stage_hook_name (running_stage self) ''load_sample'') = None \<and>
    class_getattr (cls self) ''load_sample'' = Some g' \<longrightarrow>
      call_load_sample prog sample self = prog g' [sample] [] self)"
  by (simp add: resolve_defs)

text \<open>
  The predict input at stage predicting runs its \<^verbatim>\<open>predict_\<close> hooks; at stage training,
  where it has no \<^verbatim>\<open>train_\<close> hooks, it runs the generic ones.
\<close>

theorem stage_override_resolution_witness:
  "stage_hook_name PREDICTING ''load_data'' = ''predict_load_data'' \<and>
   call_load_data (video_program demo_video_lib) [PyRef 0] []
       (new_instance VideoClassificationPathsPredictInput PREDICTING three_paths) =
     predict_load_data demo_video_lib [PyRef 0] []
       (new_instance VideoClassificationPathsPredictInput PREDICTING three_paths) \<and>
   call_load_sample (video_program demo_video_lib) (PyStr ''a.mp4'')
       (new_instance VideoClassificationPathsPredictInput PREDICTING three_paths) =
     predict_load_sample demo_video_lib [PyStr ''a.mp4''] []
       (new_instance VideoClassificationPathsPredictInput PREDICTING three_paths) \<and>
   call_load_data (video_program demo_video_lib) [PyRef 0] []
       (new_instance VideoClassificationPathsPredictInput TRAINING three_paths) =
     load_data [PyRef 0] []
       (new_instance VideoClassificationPathsPredictInput TRAINING three_paths) \<and>
   call_load_sample (video_program demo_video_lib) (PyStr ''a.mp4'')
       (new_instance VideoClassificationPathsPredictInput TRAINING three_paths) =
     load_sample [PyStr ''a.mp4''] []
       (new_instance VideoClassificationPathsPredictInput TRAINING three_paths)"
  using
    stage_override_resolution
      [of "new_instance VideoClassificationPathsPredictInput PREDICTING three_paths"
      "''VideoClassificationPathsPredictInput.predict_load_data''" "video_program demo_video_lib"
      "[PyRef 0]" "[]"
      "''InputBase.load_data''" "''VideoClassificationPathsPredictInput.predict_load_sample''"
      "PyStr ''a.mp4''" "''InputBase.load_sample''"]
    stage_override_resolution
      [of "new_instance VideoClassificationPathsPredictInput TRAINING three_paths"
      "''VideoClassificationPathsPredictInput.predict_load_data''" "video_program demo_video_lib"
      "[PyRef 0]" "[]"
      "''InputBase.load_data''" "''VideoClassificationPathsPredictInput.predict_load_sample''"
      "PyStr ''a.mp4''" "''InputBase.load_sample''"]
  by (simp add: new_instance_def heap_new_def class_defs stage_hook_name_def video_program_def
      InputBase_program_def)

subsection \<open>Construction\<close>

lemma generic_load_data_of_ProbeInput:
  "call_load_data Probe_program args kwargs (new_instance ProbeInput stage h) =
     probe_load_data args kwargs (new_instance ProbeInput stage h)"
  by (cases stage)
    (simp_all add: resolve_defs new_instance_def heap_new_def class_defs Probe_program_def)

text \<open>
  Claim C2. A dataset constructed with \<^verbatim>\<open>None\<close> as its first load-argument is the fresh,
  empty object whatever the program of hooks is: its length is 0, an iteration over it is
  exhausted at once, and the probe's call counter stays at 0. With a first load-argument
  other than \<^verbatim>\<open>None\<close>, construction is one call of the resolved \<^verbatim>\<open>load_data\<close> hook, whose
  result becomes \<^verbatim>\<open>self.data\<close>; the probe's counter is 1 when construction returns.
\<close>

theorem construction_gated_by_first_argument:
  "InputBase_init prog C stage (PyNone # args) kwargs h = Inr (new_instance C stage h) \<and>
   fst (Input_len (new_instance C stage h)) = Inr 0 \<and>
   IterableInput_iter (new_instance C stage h) =
     Inr ((new_instance C stage h)
       \<lparr>data_iter := Some (PyRef (Suc (length h))),
        objects := h @ [ListObj [], ListIterObj (Some (length h)) 0]\<rparr>) \<and>
   IterableInput_next prog ((new_instance C stage h)
       \<lparr>data_iter := Some (PyRef (Suc (length h))),
        objects := h @ [ListObj [], ListIterObj (Some (length h)) 0]\<rparr>) =
     (Inl StopIteration,
      (new_instance C stage h)
        \<lparr>data_iter := Some (PyRef (Suc (length h))),
         objects := h @ [ListObj [], ListIterObj None 0]\<rparr>) \<and>
   (a \<noteq> PyNone \<longrightarrow>
      InputBase_init prog C stage (a # args) kwargs h =
        (case call_load_data prog (a # args) kwargs (new_instance C stage h) of
           (Inl e, self') \<Rightarrow> Inl e
         | (Inr d, self') \<Rightarrow> Inr (self'\<lparr>data := d\<rparr>))) \<and>
   (case InputBase_init Probe_program ProbeInput stage (PyNone # args) kwargs h of
      Inl e \<Rightarrow> False
    | Inr self \<Rightarrow> load_data_calls self = 0) \<and>
   (a \<noteq> PyNone \<longrightarrow>
      (case InputBase_init Probe_program ProbeInput stage (a # args) kwargs h of
         Inl e \<Rightarrow> False
       | Inr self \<Rightarrow> load_data_calls self = 1 \<and> data self = a))"
proof -
  have none: "InputBase_init prog C stage (PyNone # args) kwargs h = Inr (new_instance C stage h)"
    for prog C
    by (simp add: InputBase_init_def)
  have empty: "fst (Input_len (new_instance C stage h)) = Inr 0"
    by (simp add: Input_len_def new_instance_def heap_defs)
  have it: "IterableInput_iter (new_instance C stage h) =
     Inr ((new_instance C stage h)
       \<lparr>data_iter := Some (PyRef (Suc (length h))),
        objects := h @ [ListObj [], ListIterObj (Some (length h)) 0]\<rparr>)"
    by (simp add: IterableInput_iter_def new_instance_def heap_defs)
  have stop: "IterableInput_next prog ((new_instance C stage h)
       \<lparr>data_iter := Some (PyRef (Suc (length h))),
        objects := h @ [ListObj [], ListIterObj (Some (length h)) 0]\<rparr>) =
     (Inl StopIteration,
      (new_instance C stage h)
        \<lparr>data_iter := Some (PyRef (Suc (length h))),
         objects := h @ [ListObj [], ListIterObj None 0]\<rparr>)"
    by (simp add: IterableInput_next_def new_instance_def heap_defs nth_append list_update_append)
  have once: "a \<noteq> PyNone \<longrightarrow>
      InputBase_init prog C stage (a # args) kwargs h =
        (case call_load_data prog (a # args) kwargs (new_instance C stage h) of
           (Inl e, self') \<Rightarrow> Inl e
         | (Inr d, self') \<Rightarrow> Inr (self'\<lparr>data := d\<rparr>))" for prog C
    by (simp add: InputBase_init_def)
  have probe0: "(case InputBase_init Probe_program ProbeInput stage (PyNone # args) kwargs h of
      Inl e \<Rightarrow> False | Inr self \<Rightarrow> load_data_calls self = 0)"
    by (simp add: none load_data_calls_def new_instance_def heap_new_def)
  have probe1: "a \<noteq> PyNone \<longrightarrow>
      (case InputBase_init Probe_program ProbeInput stage (a # args) kwargs h of
         Inl e \<Rightarrow> False
       | Inr self \<Rightarrow> load_data_calls self = 1 \<and> data self = a)"
  proof
    assume "a \<noteq> PyNone"
    then have "InputBase_init Probe_program ProbeInput stage (a # args) kwargs h =
        Inr ((new_instance ProbeInput stage h)
          \<lparr>attrs := [(''load_data_calls'', PyInt 1)], data := a\<rparr>)"
      using once [of Probe_program ProbeInput]
      by (simp add: generic_load_data_of_ProbeInput probe_load_data_def)
        (simp add: load_data_calls_def new_instance_def heap_new_def)
    then show "case InputBase_init Probe_program ProbeInput stage (a # args) kwargs h of
         Inl e \<Rightarrow> False
       | Inr self \<Rightarrow> load_data_calls self = 1 \<and> data self = a"
      by (simp add: load_data_calls_def)
  qed
  show ?thesis
    using none empty it stop once probe0 probe1 by blast
qed

theorem construction_gated_by_first_argument_witness:
  "PyRef 0 \<noteq> PyNone \<and>
   InputBase_init InputBase_program IterableInput VALIDATING [PyNone] [] two_paths =
     Inr (new_instance IterableInput VALIDATING two_paths) \<and>
   InputBase_init InputBase_program Input TRAINING [PyRef 0] [] two_paths =
     Inr ((new_instance Input TRAINING two_paths)\<lparr>data := PyRef 0\<rparr>) \<and>
   (case InputBase_init Probe_program ProbeInput TRAINING [PyRef 0] [] two_paths of
      Inl e \<Rightarrow> False
    | Inr self \<Rightarrow> load_data_calls self = 1 \<and> data self = PyRef 0)"
  using
    construction_gated_by_first_argument [of InputBase_program IterableInput VALIDATING "[]" "[]"
      two_paths "PyRef 0"]
    construction_gated_by_first_argument [of InputBase_program Input TRAINING "[]" "[]"
      two_paths "PyRef 0"]
  by (simp add: resolve_defs new_instance_def heap_new_def class_defs InputBase_program_def
      load_data_def)

text \<open>
  Claim C9. Giving no positional load-argument is not the same as giving \<^verbatim>\<open>None\<close>: the
  constructor reads \<^verbatim>\<open>args[0]\<close> unconditionally, so with no load-argument it raises
  \<^verbatim>\<open>IndexError\<close> and yields no dataset, while with \<^verbatim>\<open>None\<close> it yields the empty dataset.
\<close>

theorem init_without_load_arguments:
  "InputBase_init prog C stage [] kwargs h = Inl IndexError \<and>
   InputBase_init prog C stage [PyNone] kwargs h = Inr (new_instance C stage h)"
  by (simp add: InputBase_init_def)

subsection \<open>Random access\<close>

text \<open>
  Claim C3, as the code has it. For an \<^verbatim>\<open>Input\<close> whose raw collection is a list of \<open>N\<close>
  descriptors, \<^verbatim>\<open>__len__\<close> returns \<open>N\<close>; \<^verbatim>\<open>__getitem__(i)\<close> returns the resolved
  \<^verbatim>\<open>load_sample\<close> hook applied to descriptor \<open>i\<close> when \<open>0 \<le> i < N\<close>, and to descriptor
  \<open>N + i\<close> when \<open>-N \<le> i < 0\<close> (the list's own indexing from the end); it raises
  \<^verbatim>\<open>IndexError\<close> when \<open>i < -N\<close> or \<open>i \<ge> N\<close>.
\<close>

theorem Input_len_getitem:
  "data self = PyRef r \<and> heap_get (objects self) r = Some (ListObj xs) \<Longrightarrow>
     fst (Input_len self) = Inr (length xs) \<and>
     (0 \<le> i \<and> i < int (length xs) \<longrightarrow>
        Input_getitem prog i self = call_load_sample prog (xs ! nat i) self) \<and>
     (- int (length xs) \<le> i \<and> i < 0 \<longrightarrow>
        Input_getitem prog i self = call_load_sample prog (xs ! nat (int (length xs) + i)) self) \<and>
     (i < - int (length xs) \<or> int (length xs) \<le> i \<longrightarrow>
        Input_getitem prog i self = (Inl IndexError, self))"
  by (auto simp: Input_len_def Input_getitem_def list_getitem_def py_len_def py_getitem_def)

theorem Input_len_getitem_witness:
  "fst (Input_len ((new_instance Input TRAINING two_paths)\<lparr>data := PyRef 0\<rparr>)) = Inr 2 \<and>
   fst (Input_getitem InputBase_program 0
          ((new_instance Input TRAINING two_paths)\<lparr>data := PyRef 0\<rparr>)) = Inr (PyStr ''a.mp4'') \<and>
   fst (Input_getitem InputBase_program (- 2)
          ((new_instance Input TRAINING two_paths)\<lparr>data := PyRef 0\<rparr>)) = Inr (PyStr ''a.mp4'') \<and>
   fst (Input_getitem InputBase_program 2
          ((new_instance Input TRAINING two_paths)\<lparr>data := PyRef 0\<rparr>)) = Inl IndexError \<and>
   fst (Input_getitem InputBase_program (- 3)
          ((new_instance Input TRAINING two_paths)\<lparr>data := PyRef 0\<rparr>)) = Inl IndexError"
proof -
  let ?ds = "(new_instance Input TRAINING two_paths)\<lparr>data := PyRef 0\<rparr>"
  have d: "data ?ds = PyRef 0 \<and>
      heap_get (objects ?ds) 0 = Some (ListObj [PyStr ''a.mp4'', PyStr ''b.mp4''])"
    by (simp add: new_instance_def heap_new_def heap_get_def two_paths_def)
  have hook: "call_load_sample InputBase_program x ?ds = (Inr x, ?ds)" for x
    by (simp add: resolve_defs new_instance_def heap_new_def class_defs InputBase_program_def
        load_sample_def)
  show ?thesis
    using Input_len_getitem [OF d, of 0 InputBase_program]
      Input_len_getitem [OF d, of "- 2" InputBase_program]
      Input_len_getitem [OF d, of 2 InputBase_program]
      Input_len_getitem [OF d, of "- 3" InputBase_program]
    by (simp add: hook)
qed

text \<open>
  The claim as the specification states it asks \<^verbatim>\<open>__getitem__(i)\<close> to fail for every
  \<open>i < 0\<close>. On a dataset of two paths, index \<open>-1\<close> returns the last sample instead.
\<close>

theorem getitem_negative_index_counterexample:
  "(case InputBase_init InputBase_program Input TRAINING [PyRef 0] [] two_paths of
      Inl e \<Rightarrow> False
    | Inr ds \<Rightarrow>
        fst (Input_len ds) = Inr 2 \<and>
        fst (Input_getitem InputBase_program (- 1) ds) = Inr (PyStr ''b.mp4'') \<and>
        fst (Input_getitem InputBase_program (- 1) ds) \<noteq> Inl IndexError)"
  by (simp add: eval_defs two_paths_def)


subsection \<open>The predict hook of the video input\<close>

lemma predict_videos_constructed:
  "InputBase_init (video_program demo_video_lib) VideoClassificationPathsPredictInput PREDICTING
     [PyRef 0] [] three_paths = Inr predict_videos"
  by (simp add: InputBase_init_def resolve_defs new_instance_def heap_new_def heap_get_def
      class_defs video_program_def predict_load_data_def bind_param_def demo_video_lib_def
      make_clip_sampler'_def set_self_attr_def predict_videos_def three_paths_def)

lemma predict_videos_getitem:
  "0 \<le> i \<Longrightarrow> i < 3 \<Longrightarrow>
   Input_getitem (video_program demo_video_lib) i predict_videos =
     predict_load_sample demo_video_lib
       [[PyStr ''a.mp4'', PyStr ''b.mp4'', PyStr ''long.mp4''] ! nat i] [] predict_videos"
  by (simp add: Input_getitem_def heap_defs resolve_defs class_defs video_program_def
      predict_videos_def)

text \<open>
  Claim C6, as the code has it. When the clip decoded for a predict sample is null (no
  clip, no video in it, or no audio although audio decoding was asked for),
  \<^verbatim>\<open>predict_load_sample\<close> raises \<^verbatim>\<open>MisconfigurationException\<close> with a message made of the
  video's duration and the sampler's clip duration; the message does not contain the
  input's path. When the clip is not null it returns the sample mapping, whose metadata
  holds the input's path.
\<close>

theorem predict_load_sample_null_clip:
  assumes "self_attr self ''_decode_audio'' = Inr decode_audio"
    and "self_attr self ''_decoder'' = Inr decoder"
    and "self_attr self ''_clip_sampler'' = Inr sampler"
    and "EncodedVideo_from_path lib sample decode_audio decoder = Inr video"
    and "clip_sampler_call lib sampler (PyFloat ''0.0'') (ev_duration video) PyNone = info"
    and "ev_get_clip video (clip_start info) (clip_end info) = loaded_clip"
  shows "(loaded_clip = None \<or>
          (\<exists>c. loaded_clip = Some c \<and>
             (clip_video c = PyNone \<or>
              (clip_audio c = PyNone \<and> py_truthy decode_audio (objects self)))) \<longrightarrow>
            predict_load_sample lib [sample] [] self =
              (Inl (MisconfigurationException
                 (''The provided video is too short '' @ py_format lib (ev_duration video) @
                  '' to be clipped at '' @ py_format lib (clip_sampler_clip_duration lib sampler))),
               self)) \<and>
         (\<forall>c. loaded_clip = Some c \<and> clip_video c \<noteq> PyNone \<and>
              (clip_audio c \<noteq> PyNone \<or> \<not> py_truthy decode_audio (objects self)) \<longrightarrow>
            predict_load_sample lib [sample] [] self =
              (Inr (predict_sample_dict video info c sample), self) \<and>
            map_of (case predict_sample_dict video info c sample of PyDict kvs \<Rightarrow> kvs | _ \<Rightarrow> [])
              DataKeys_METADATA = Some (PyDict [(''filepath'', sample)]))"
  using assms
  by (auto simp: predict_load_sample_def clip_is_null_def too_short_message_def Let_def
      predict_sample_dict_def DataKeys_METADATA_def)

theorem predict_load_sample_null_clip_witness:
  "predict_load_sample demo_video_lib [PyStr ''a.mp4''] [] predict_videos =
     (Inl (MisconfigurationException ''The provided video is too short 1.0 to be clipped at 2''),
      predict_videos) \<and>
   predict_load_sample demo_video_lib [PyStr ''long.mp4''] [] predict_videos =
     (Inr (PyDict
        [(''video'', PyObj ''frames''), (''video_name'', PyStr ''long.mp4''),
         (''video_index'', PyInt 0), (''clip_index'', PyInt 0), (''aug_index'', PyInt 0),
         (''metadata'', PyDict [(''filepath'', PyStr ''long.mp4'')])]),
      predict_videos)"
proof -
  have att: "self_attr predict_videos ''_decode_audio'' = Inr (PyBool False)"
    "self_attr predict_videos ''_decoder'' = Inr (PyStr ''pyav'')"
    "self_attr predict_videos ''_clip_sampler'' = Inr (PyObj ''sampler'')"
    by (simp_all add: self_attr_def predict_videos_def)
  have short: "EncodedVideo_from_path demo_video_lib (PyStr ''a.mp4'') (PyBool False) (PyStr ''pyav'') =
      Inr \<lparr>ev_duration = PyFloat ''1.0'', ev_name = PyStr ''a.mp4'', ev_get_clip = (\<lambda>s e. None)\<rparr>"
    by (simp add: demo_video_lib_def)
  have long: "EncodedVideo_from_path demo_video_lib (PyStr ''long.mp4'') (PyBool False) (PyStr ''pyav'') =
      Inr \<lparr>ev_duration = PyFloat ''1.0'', ev_name = PyStr ''long.mp4'',
           ev_get_clip = (\<lambda>s e. Some \<lparr>clip_video = PyObj ''frames'', clip_audio = PyNone\<rparr>)\<rparr>"
    by (simp add: demo_video_lib_def)
  show ?thesis
    using predict_load_sample_null_clip [OF att short refl refl]
      predict_load_sample_null_clip [OF att long refl refl]
    by (simp add: demo_video_lib_def predict_sample_dict_def DataKeys_METADATA_def py_truthy_def)
qed

text \<open>
  The claim as the specification states it asks the error to identify the offending input.
  Two different inputs of one dataset fail with the very same error, which names neither.
\<close>

theorem predict_error_omits_input_counterexample:
  "(case InputBase_init (video_program demo_video_lib) VideoClassificationPathsPredictInput
           PREDICTING [PyRef 0] [] three_paths of
      Inl e \<Rightarrow> False
    | Inr ds \<Rightarrow>
        fst (Input_getitem (video_program demo_video_lib) 0 ds) =
          Inl (MisconfigurationException ''The provided video is too short 1.0 to be clipped at 2'') \<and>
        fst (Input_getitem (video_program demo_video_lib) 1 ds) =
          Inl (MisconfigurationException ''The provided video is too short 1.0 to be clipped at 2''))"
proof -
  have a: "fst (predict_load_sample demo_video_lib [PyStr ''a.mp4''] [] predict_videos) =
      Inl (MisconfigurationException ''The provided video is too short 1.0 to be clipped at 2'')"
    by (simp add: predict_load_sample_def self_attr_def predict_videos_def demo_video_lib_def
        clip_is_null_def too_short_message_def)
  have b: "fst (predict_load_sample demo_video_lib [PyStr ''b.mp4''] [] predict_videos) =
      Inl (MisconfigurationException ''The provided video is too short 1.0 to be clipped at 2'')"
    by (simp add: predict_load_sample_def self_attr_def predict_videos_def demo_video_lib_def
        clip_is_null_def too_short_message_def)
  show ?thesis
    using a b predict_videos_getitem [of 0] predict_videos_getitem [of 1]
    by (simp add: predict_videos_constructed)
qed


subsection \<open>Class definition\<close>

lemma InputBase_init_attr: "class_getattr InputBase ''__init__'' = Some ''InputBase.__init__''"
  by (simp add: InputBase_def)

text \<open>
  Claim C5. A class overrides \<^verbatim>\<open>__init__\<close> when the \<^verbatim>\<open>__init__\<close> it resolves to, from its
  own body or from a base that precedes \<^verbatim>\<open>InputBase\<close> in its resolution order, is a
  function other than \<^verbatim>\<open>InputBase.__init__\<close>; this is what \<^verbatim>\<open>_check_init\<close> tests. For every
  class statement, whatever its name, bases and body: either metaclass raises the
  \<^verbatim>\<open>RuntimeError\<close> exactly when the new class overrides \<^verbatim>\<open>__init__\<close>, so no class object
  (and hence no instance) comes to exist, and returns the new class otherwise. Case by
  case: a body with an \<^verbatim>\<open>__init__\<close> of its own is rejected; a body without one is rejected
  when a base in front of \<^verbatim>\<open>InputBase\<close> brings one; a body that binds \<^verbatim>\<open>__init__\<close> to
  \<^verbatim>\<open>InputBase.__init__\<close> itself is accepted; a body without one whose bases resolve to
  \<^verbatim>\<open>InputBase.__init__\<close> is accepted, and so are its own subclasses in turn; \<^verbatim>\<open>Input\<close> and
  \<^verbatim>\<open>IterableInput\<close> are such bases.
\<close>

theorem init_override_rejected_at_class_definition:
  "InputMeta_new name bases dct =
     (case class_getattr (type_new name bases dct) ''__init__'' of
        None \<Rightarrow> Inr (type_new name bases dct)
      | Some f \<Rightarrow>
          if f \<noteq> ''InputBase.__init__'' then Inl (RuntimeError init_override_message)
          else Inr (type_new name bases dct)) \<and>
   IterableInputMeta_new name bases dct = InputMeta_new name bases dct \<and>
   class_getattr (type_new name bases dct) ''__init__'' =
     (case map_of dct ''__init__'' of
        Some f \<Rightarrow> Some f
      | None \<Rightarrow> class_getattr bases ''__init__'') \<and>
   (map_of dct ''__init__'' = Some f \<and> f \<noteq> ''InputBase.__init__'' \<longrightarrow>
      InputMeta_new name bases dct = Inl (RuntimeError init_override_message) \<and>
      IterableInputMeta_new name bases dct = Inl (RuntimeError init_override_message)) \<and>
   (map_of dct ''__init__'' = None \<and> class_getattr bases ''__init__'' = Some f \<and>
    f \<noteq> ''InputBase.__init__'' \<longrightarrow>
      InputMeta_new name bases dct = Inl (RuntimeError init_override_message) \<and>
      IterableInputMeta_new name bases dct = Inl (RuntimeError init_override_message)) \<and>
   (map_of dct ''__init__'' = Some ''InputBase.__init__'' \<longrightarrow>
      InputMeta_new name bases dct = Inr (type_new name bases dct) \<and>
      IterableInputMeta_new name bases dct = Inr (type_new name bases dct)) \<and>
   (map_of dct ''__init__'' = None \<and>
    class_getattr bases ''__init__'' = Some ''InputBase.__init__'' \<longrightarrow>
      InputMeta_new name bases dct = Inr (type_new name bases dct) \<and>
      IterableInputMeta_new name bases dct = Inr (type_new name bases dct) \<and>
      class_getattr (type_new name bases dct) ''__init__'' = Some ''InputBase.__init__'') \<and>
   (map_of dct ''__init__'' = None \<and> class_getattr bases ''__init__'' = None \<longrightarrow>
      InputMeta_new name bases dct = Inr (type_new name bases dct) \<and>
      IterableInputMeta_new name bases dct = Inr (type_new name bases dct)) \<and>
   class_getattr Input ''__init__'' = Some ''InputBase.__init__'' \<and>
   class_getattr IterableInput ''__init__'' = Some ''InputBase.__init__''"
  by (simp add: InputMeta_new_def IterableInputMeta_new_def check_init_def is_overridden_def
      type_new_def InputBase_init_attr Input_def IterableInput_def split: option.splits)

theorem init_override_rejected_at_class_definition_witness:
  "InputMeta_new ''Broken'' Input [(''__init__'', ''Broken.__init__'')] =
     Inl (RuntimeError init_override_message) \<and>
   IterableInputMeta_new ''BrokenStream'' IterableInput [(''__init__'', ''BrokenStream.__init__'')] =
     Inl (RuntimeError init_override_message) \<and>
   InputMeta_new ''M1'' ((''Mixin'', [(''__init__'', ''Mixin.__init__'')]) # Input) [] =
     Inl (RuntimeError init_override_message) \<and>
   InputMeta_new ''Alias'' Input [(''__init__'', ''InputBase.__init__'')] =
     Inr (type_new ''Alias'' Input [(''__init__'', ''InputBase.__init__'')]) \<and>
   InputMeta_new ''VideoClassificationPathsPredictInput'' Input
       [(''predict_load_data'', ''VideoClassificationPathsPredictInput.predict_load_data''),
        (''predict_load_sample'', ''VideoClassificationPathsPredictInput.predict_load_sample'')] =
     Inr VideoClassificationPathsPredictInput \<and>
   InputMeta_new ''Input'' InputBase
       [(''__getitem__'', ''Input.__getitem__''), (''__len__'', ''Input.__len__'')] = Inr Input \<and>
   IterableInputMeta_new ''IterableInput'' InputBase
       [(''__iter__'', ''IterableInput.__iter__''), (''__next__'', ''IterableInput.__next__'')] =
     Inr IterableInput"
  using
    init_override_rejected_at_class_definition [of "''Broken''" Input
      "[(''__init__'', ''Broken.__init__'')]" "''Broken.__init__''"]
    init_override_rejected_at_class_definition [of "''BrokenStream''" IterableInput
      "[(''__init__'', ''BrokenStream.__init__'')]" "''BrokenStream.__init__''"]
    init_override_rejected_at_class_definition [of "''M1''"
      "(''Mixin'', [(''__init__'', ''Mixin.__init__'')]) # Input" "[]" "''Mixin.__init__''"]
    init_override_rejected_at_class_definition [of "''Alias''" Input
      "[(''__init__'', ''InputBase.__init__'')]" "''x''"]
    init_override_rejected_at_class_definition [of "''VideoClassificationPathsPredictInput''" Input
      "[(''predict_load_data'', ''VideoClassificationPathsPredictInput.predict_load_data''),
        (''predict_load_sample'', ''VideoClassificationPathsPredictInput.predict_load_sample'')]"
      "''x''"]
    init_override_rejected_at_class_definition [of "''Input''" InputBase
      "[(''__getitem__'', ''Input.__getitem__''), (''__len__'', ''Input.__len__'')]" "''x''"]
    init_override_rejected_at_class_definition [of "''IterableInput''" InputBase
      "[(''__iter__'', ''IterableInput.__iter__''), (''__next__'', ''IterableInput.__next__'')]"
      "''x''"]
  by (simp add: InputBase_init_attr VideoClassificationPathsPredictInput_def Input_def
      IterableInput_def)

subsection \<open>The running stage\<close>

lemma call_load_sample_resolved:
  "call_load_sample prog x s =
     (case resolved_hook s ''load_sample'' of
        None \<Rightarrow> (Inl (AttributeError ''load_sample''), s)
      | Some f \<Rightarrow> prog f [x] [] s)"
  by (simp add: call_load_sample_def resolved_hook_def)

lemma call_load_data_resolved:
  "call_load_data prog args kwargs s =
     (case resolved_hook s ''load_data'' of
        None \<Rightarrow> (Inl (AttributeError ''load_data''), s)
      | Some f \<Rightarrow> prog f args kwargs s)"
  by (simp add: call_load_data_def resolved_hook_def)

lemma resolved_hook_objects [simp]:
  "resolved_hook (s\<lparr>objects := h\<rparr>) name = resolved_hook s name"
  by (simp add: resolved_hook_def getattr_def resolve_function_hierarchy_def)

text \<open>
  Claim C8, as the code has it. \<^verbatim>\<open>__len__\<close> and \<^verbatim>\<open>__iter__\<close> never change the running stage.
  \<^verbatim>\<open>__init__\<close>, \<^verbatim>\<open>__getitem__\<close> and \<^verbatim>\<open>__next__\<close> do not assign it themselves, but each hands
  \<^verbatim>\<open>self\<close> to the resolved hook: the stage they leave is the stage that hook call leaves
  (and the stage before, when no hook is called), so it is unchanged exactly when the hook
  does not assign it.
\<close>

theorem running_stage_immutable:
  "running_stage (snd (Input_len self)) = running_stage self \<and>
   (case IterableInput_iter self of
      Inl e \<Rightarrow> True | Inr self' \<Rightarrow> running_stage self' = running_stage self) \<and>
   (resolved_hook self ''load_sample'' = None \<longrightarrow>
      running_stage (snd (Input_getitem prog i self)) = running_stage self \<and>
      running_stage (snd (IterableInput_next prog self)) = running_stage self) \<and>
   (resolved_hook self ''load_sample'' = Some f \<longrightarrow>
      running_stage (snd (Input_getitem prog i self)) =
        (case py_getitem (data self) i (objects self) of
           Inl e \<Rightarrow> running_stage self
         | Inr x \<Rightarrow> running_stage (snd (prog f [x] [] self))) \<and>
      running_stage (snd (IterableInput_next prog self)) =
        (case data_iter self of
           None \<Rightarrow> running_stage self
         | Some it \<Rightarrow>
             (case py_next it (objects self) of
                (Inl e, h) \<Rightarrow> running_stage self
              | (Inr x, h) \<Rightarrow> running_stage (snd (prog f [x] [] (self\<lparr>objects := h\<rparr>)))))) \<and>
   (resolved_hook (new_instance C stage h0) ''load_data'' = Some g \<longrightarrow>
      (case InputBase_init prog C stage args kwargs h0 of
         Inl e \<Rightarrow> True
       | Inr self' \<Rightarrow>
           running_stage self' =
             (case args of
                [] \<Rightarrow> stage
              | a # rest \<Rightarrow>
                  if a = PyNone then stage
                  else running_stage (snd (prog g args kwargs (new_instance C stage h0))))))"
proof (intro conjI impI)
  show "running_stage (snd (Input_len self)) = running_stage self"
    by (simp add: Input_len_def)
  show "(case IterableInput_iter self of
            Inl e \<Rightarrow> True | Inr self' \<Rightarrow> running_stage self' = running_stage self)"
    by (auto simp: IterableInput_iter_def split: sum.splits prod.splits)
next
  assume "resolved_hook self ''load_sample'' = None"
  then show "running_stage (snd (Input_getitem prog i self)) = running_stage self"
    and "running_stage (snd (IterableInput_next prog self)) = running_stage self"
    by (auto simp: Input_getitem_def IterableInput_next_def call_load_sample_resolved
        split: sum.splits option.splits prod.splits)
next
  assume "resolved_hook self ''load_sample'' = Some f"
  then show "running_stage (snd (Input_getitem prog i self)) =
        (case py_getitem (data self) i (objects self) of
           Inl e \<Rightarrow> running_stage self
         | Inr x \<Rightarrow> running_stage (snd (prog f [x] [] self)))"
    and "running_stage (snd (IterableInput_next prog self)) =
        (case data_iter self of
           None \<Rightarrow> running_stage self
         | Some it \<Rightarrow>
             (case py_next it (objects self) of
                (Inl e, h) \<Rightarrow> running_stage self
              | (Inr x, h) \<Rightarrow> running_stage (snd (prog f [x] [] (self\<lparr>objects := h\<rparr>)))))"
    by (auto simp: Input_getitem_def IterableInput_next_def call_load_sample_resolved
        split: sum.splits option.splits prod.splits)
next
  assume g: "resolved_hook (new_instance C stage h0) ''load_data'' = Some g"
  have fresh: "running_stage (new_instance C stage h0) = stage"
    by (simp add: new_instance_def heap_new_def)
  show "(case InputBase_init prog C stage args kwargs h0 of
         Inl e \<Rightarrow> True
       | Inr self' \<Rightarrow>
           running_stage self' =
             (case args of
                [] \<Rightarrow> stage
              | a # rest \<Rightarrow>
                  if a = PyNone then stage
                  else running_stage (snd (prog g args kwargs (new_instance C stage h0)))))"
    using g fresh
    by (auto simp: InputBase_init_def Let_def call_load_data_resolved
        split: list.splits sum.splits prod.splits)
qed

theorem running_stage_immutable_witness:
  "resolved_hook ((new_instance Input TESTING two_paths)\<lparr>data := PyRef 0\<rparr>) ''load_sample'' =
     Some ''InputBase.load_sample'' \<and>
   running_stage (snd (Input_getitem InputBase_program 1
     ((new_instance Input TESTING two_paths)\<lparr>data := PyRef 0\<rparr>))) = TESTING \<and>
   resolved_hook (new_instance Input TESTING two_paths) ''load_data'' =
     Some ''InputBase.load_data'' \<and>
   (case InputBase_init InputBase_program Input TESTING [PyRef 0] [] two_paths of
      Inl e \<Rightarrow> False | Inr self' \<Rightarrow> running_stage self' = TESTING)"
proof -
  let ?ds = "(new_instance Input TESTING two_paths)\<lparr>data := PyRef 0\<rparr>"
  have s: "resolved_hook ?ds ''load_sample'' = Some ''InputBase.load_sample''"
    by (simp add: resolved_hook_def getattr_def resolve_function_hierarchy_def
        stage_hook_name_def new_instance_def heap_new_def class_defs)
  have d: "resolved_hook (new_instance Input TESTING two_paths) ''load_data'' =
      Some ''InputBase.load_data''"
    by (simp add: resolved_hook_def getattr_def resolve_function_hierarchy_def
        stage_hook_name_def new_instance_def heap_new_def class_defs)
  show ?thesis
    using running_stage_immutable [where self = ?ds and prog = InputBase_program and i = 1
        and f = "''InputBase.load_sample''" and g = "''InputBase.load_data''" and C = Input
        and stage = TESTING and ?h0.0 = two_paths and args = "[PyRef 0]" and kwargs = "[]"] s d
    by (simp add: eval_defs two_paths_def)
qed

text \<open>
  The claim as the specification states it holds the stage immutable for every dataset.
  A subclass whose \<^verbatim>\<open>load_sample\<close> assigns the stage is built for testing, and one
  \<^verbatim>\<open>__getitem__\<close> leaves it at training.
\<close>

theorem stage_assigning_hook_counterexample:
  "(case InputBase_init Restaging_program RestagingInput TESTING [PyRef 0] [] two_paths of
      Inl e \<Rightarrow> False
    | Inr ds \<Rightarrow>
        running_stage ds = TESTING \<and>
        fst (Input_getitem Restaging_program 0 ds) = Inr (PyStr ''a.mp4'') \<and>
        running_stage (snd (Input_getitem Restaging_program 0 ds)) = TRAINING)"
  by (simp add: eval_defs two_paths_def Restaging_program_def restaging_load_sample_def)


subsection \<open>Streaming\<close>




















subsection \<open>Tabular backbones\<close>

text \<open>
  Claim C10. The registry holds exactly the six backbone names, each bound to
  \<^verbatim>\<open>load_pytorch_tabular\<close> with the configuration class of that name. Whatever the name,
  the configuration class serves only to build the configuration: once the library calls
  succeed, the result is what the constructor of \<^verbatim>\<open>TabNetModel\<close> returns for the merged
  configuration, and no model is ever returned that this constructor did not make.
\<close>

theorem every_backbone_builds_TabNetModel:
  "map fst (PYTORCH_TABULAR_BACKBONES True lib) = backbone_names \<and>
   (\<forall>(model_config, name) \<in> set (zip backbone_config_classes backbone_names).
      registry_get (PYTORCH_TABULAR_BACKBONES True lib) name =
        Some (load_pytorch_tabular lib model_config) \<and>
      (\<forall>task_type parameters kwargs dims mc conf.
         DictConfig_getitem lib parameters ''embedding_dims'' = Inr dims \<and>
         model_config_new lib model_config task_type dims = Inr mc \<and>
         OmegaConf_merge lib parameters mc = Inr conf \<longrightarrow>
           load_pytorch_tabular lib model_config task_type parameters kwargs =
             model_new lib TabNetModel conf) \<and>
      (\<forall>task_type parameters kwargs model.
         load_pytorch_tabular lib model_config task_type parameters kwargs = Inr model \<longrightarrow>
           (\<exists>conf. model_new lib TabNetModel conf = Inr model)))"
proof -
  have names: "map fst (PYTORCH_TABULAR_BACKBONES True lib) = backbone_names"
    by (simp add: PYTORCH_TABULAR_BACKBONES_def backbone_config_classes_def backbone_names_def
        registry_register_def)
  have built: "load_pytorch_tabular lib model_config task_type parameters kwargs =
      model_new lib TabNetModel conf"
    if "DictConfig_getitem lib parameters ''embedding_dims'' = Inr dims"
      and "model_config_new lib model_config task_type dims = Inr mc"
      and "OmegaConf_merge lib parameters mc = Inr conf"
    for model_config task_type parameters kwargs dims mc conf
    using that by (simp add: load_pytorch_tabular_def)
  have only: "\<exists>conf. model_new lib TabNetModel conf = Inr model"
    if "load_pytorch_tabular lib model_config task_type parameters kwargs = Inr model"
    for model_config task_type parameters kwargs model
    using that by (auto simp: load_pytorch_tabular_def split: sum.splits)
  have reg: "registry_get (PYTORCH_TABULAR_BACKBONES True lib) name =
      Some (load_pytorch_tabular lib model_config)"
    if "(model_config, name) \<in> set (zip backbone_config_classes backbone_names)"
    for model_config name
    using that
    by (auto simp: PYTORCH_TABULAR_BACKBONES_def backbone_config_classes_def backbone_names_def
        registry_register_def registry_get_def)
  show ?thesis
    using names built only reg by blast
qed

text \<open>Asking for the backbone \<^verbatim>\<open>node\<close> builds a \<^verbatim>\<open>NodeConfig\<close> and a \<^verbatim>\<open>TabNetModel\<close>.\<close>

theorem every_backbone_builds_TabNetModel_witness:
  "(NodeConfig, ''node'') \<in> set (zip backbone_config_classes backbone_names) \<and>
   (case registry_get (PYTORCH_TABULAR_BACKBONES True demo_tabular_lib) ''node'' of
      None \<Rightarrow> False
    | Some fn \<Rightarrow>
        fn (PyStr ''classification'') [(''embedding_dims'', PyRef 0)] [] =
          Inr (TabNetModel, [(''embedding_dims'', PyRef 0)],
               NodeConfig, PyStr ''classification'', PyRef 0))"
proof -
  have mem: "(NodeConfig, ''node'') \<in> set (zip backbone_config_classes backbone_names)"
    by (simp add: backbone_config_classes_def backbone_names_def)
  have dims: "DictConfig_getitem demo_tabular_lib [(''embedding_dims'', PyRef 0)]
      ''embedding_dims'' = Inr (PyRef 0)"
    by (simp add: demo_tabular_lib_def)
  have mc: "model_config_new demo_tabular_lib NodeConfig (PyStr ''classification'') (PyRef 0) =
      Inr (NodeConfig, PyStr ''classification'', PyRef 0)"
    by (simp add: demo_tabular_lib_def)
  have conf: "OmegaConf_merge demo_tabular_lib [(''embedding_dims'', PyRef 0)]
        (NodeConfig, PyStr ''classification'', PyRef 0) =
      Inr ([(''embedding_dims'', PyRef 0)], NodeConfig, PyStr ''classification'', PyRef 0)"
    by (simp add: demo_tabular_lib_def)
  from every_backbone_builds_TabNetModel [of demo_tabular_lib] mem
  have entry: "registry_get (PYTORCH_TABULAR_BACKBONES True demo_tabular_lib) ''node'' =
        Some (load_pytorch_tabular demo_tabular_lib NodeConfig)"
    and built: "\<And>task_type parameters kwargs dims mc conf.
         DictConfig_getitem demo_tabular_lib parameters ''embedding_dims'' = Inr dims \<and>
         model_config_new demo_tabular_lib NodeConfig task_type dims = Inr mc \<and>
         OmegaConf_merge demo_tabular_lib parameters mc = Inr conf \<longrightarrow>
           load_pytorch_tabular demo_tabular_lib NodeConfig task_type parameters kwargs =
             model_new demo_tabular_lib TabNetModel conf"
    by blast+
  have "load_pytorch_tabular demo_tabular_lib NodeConfig (PyStr ''classification'')
          [(''embedding_dims'', PyRef 0)] [] =
        model_new demo_tabular_lib TabNetModel
          ([(''embedding_dims'', PyRef 0)], NodeConfig, PyStr ''classification'', PyRef 0)"
    using built dims mc conf by blast
  then show ?thesis
    using mem entry by (simp add: demo_tabular_lib_def)
qed

end
